theory Spec2Isabelle
  imports Complex_Main "HOL-Library.AList" "HOL-Library.Sublist"
begin

section \<open>Python values and exceptions\<close>

text \<open>
  The web layer (\<^verbatim>\<open>app.py\<close>) and the benchmark script (\<^verbatim>\<open>benchmark.py\<close>) are glue
  between HTTP, the clock and a PostgreSQL database. The embedding keeps the source's
  control flow line by line; everything the code calls but does not define (the JSON
  body Flask parsed, the database driver, \<^verbatim>\<open>round\<close>, \<^verbatim>\<open>int\<close> on a string, the clock)
  is a field of an environment record, so that every theorem holds for every behaviour
  of those collaborators.

  An exception is a value: its class and the text \<^verbatim>\<open>str(e)\<close> gives. Only subclasses of
  \<^verbatim>\<open>Exception\<close> are modelled, which is what \<^verbatim>\<open>except Exception\<close> catches.
\<close>

datatype exn_class =
  KeyError | AttributeError | TypeError | ValueError | OverflowError
  | ZeroDivisionError | LibraryError

datatype exn = Exn exn_class string

fun str_exn :: "exn \<Rightarrow> string" where
  "str_exn (Exn c msg) = msg"

text \<open>
  A Python float is a finite rational (every double is one), an infinity or NaN; the
  parsed JSON body is a tree of Python values. A JSON object is the \<^verbatim>\<open>dict\<close> the parser
  built, kept as an association list read with \<open>map_of\<close>.
\<close>

datatype pyfloat = Finite rat | PosInf | NegInf | NaN

datatype json =
  JNull | JBool bool | JInt int | JFloat pyfloat | JStr string
  | JArr "json list" | JObj "(string \<times> json) list"

fun type_name :: "json \<Rightarrow> string" where
  "type_name JNull = ''NoneType''"
| "type_name (JBool b) = ''bool''"
| "type_name (JInt n) = ''int''"
| "type_name (JFloat f) = ''float''"
| "type_name (JStr s) = ''str''"
| "type_name (JArr xs) = ''list''"
| "type_name (JObj kvs) = ''dict''"

definition quoted :: "string \<Rightarrow> string" where
  "quoted s = [CHR 0x27] @ s @ [CHR 0x27]"

definition key_error :: "string \<Rightarrow> exn" where
  "key_error k = Exn KeyError (quoted k)"

text \<open>\<^verbatim>\<open>data.get(key, default)\<close>: only a dict has the method.\<close>

fun dict_get :: "json \<Rightarrow> string \<Rightarrow> json \<Rightarrow> exn + json" where
  "dict_get (JObj kvs) k d = Inr (case map_of kvs k of None \<Rightarrow> d | Some v \<Rightarrow> v)"
| "dict_get v k d =
     Inl (Exn AttributeError (quoted (type_name v) @ '' object has no attribute '' @ quoted ''get''))"

text \<open>
  The builtin \<^verbatim>\<open>int(x)\<close>: an int is itself, a bool is 0 or 1, a finite float is
  truncated towards zero, a string is parsed (the parser \<open>int_of_str\<close> is a parameter),
  anything else is a TypeError.
\<close>

definition int_type_error :: "json \<Rightarrow> exn" where
  "int_type_error v = Exn TypeError
     (''int() argument must be a string, a bytes-like object or a real number, not ''
      @ quoted (type_name v))"

fun py_int :: "(string \<Rightarrow> exn + int) \<Rightarrow> json \<Rightarrow> exn + int" where
  "py_int int_of_str (JInt n) = Inr n"
| "py_int int_of_str (JBool b) = Inr (if b then 1 else 0)"
| "py_int int_of_str (JFloat (Finite q)) = Inr (if 0 \<le> q then \<lfloor>q\<rfloor> else \<lceil>q\<rceil>)"
| "py_int int_of_str (JFloat NaN) = Inl (Exn ValueError ''cannot convert float NaN to integer'')"
| "py_int int_of_str (JFloat f) =
     Inl (Exn OverflowError ''cannot convert float infinity to integer'')"
| "py_int int_of_str (JStr s) = int_of_str s"
| "py_int int_of_str v = Inl (int_type_error v)"

section \<open>Effects: exceptions and the database trace\<close>

text \<open>
  A computation takes the world and returns a value or the raised exception, with the
  world after it. The world of a request is the list of database calls made so far and the
  result set the cursor holds.
\<close>

type_synonym ('w, 'a) io = "'w \<Rightarrow> (exn + 'a) \<times> 'w"

definition io_return :: "'a \<Rightarrow> ('w, 'a) io" where
  "io_return a = (\<lambda>w. (Inr a, w))"

definition io_raise :: "exn \<Rightarrow> ('w, 'a) io" where
  "io_raise e = (\<lambda>w. (Inl e, w))"

definition io_bind :: "('w, 'a) io \<Rightarrow> ('a \<Rightarrow> ('w, 'b) io) \<Rightarrow> ('w, 'b) io" where
  "io_bind m f = (\<lambda>w. case m w of (Inl e, w') \<Rightarrow> (Inl e, w') | (Inr a, w') \<Rightarrow> f a w')"

definition io_lift :: "exn + 'a \<Rightarrow> ('w, 'a) io" where
  "io_lift r = (\<lambda>w. (r, w))"

datatype db_event =
  Connect | Cursor | Execute string "json list" | Fetchall | CursorClose | ConnClose
  | Commit | Rollback

type_synonym 'v row = "(string \<times> 'v) list"

record 'v world =
  events :: "db_event list"
  result_set :: "'v row list option"

text \<open>
  The collaborators of \<^verbatim>\<open>app.py\<close>. \<open>env_database_url\<close> is the value of
  \<^verbatim>\<open>DATABASE_URL\<close> in \<^verbatim>\<open>os.environ\<close>, \<open>None\<close> when the variable is unset. A database
  call either raises or succeeds; \<open>env_connect\<close> is the outcome of \<^verbatim>\<open>psycopg2.connect\<close> on
  that connection string; a successful \<^verbatim>\<open>execute\<close> leaves its rows in the cursor.
  \<open>env_round env v n\<close> is the builtin \<^verbatim>\<open>round(v, n)\<close>, \<open>env_json_default v\<close> is the exception \<^verbatim>\<open>jsonify\<close> raises on a value it
  cannot serialise, \<open>env_now\<close> is \<^verbatim>\<open>datetime.now().isoformat()\<close>.
\<close>

record 'v env =
  env_database_url :: "string option"
  env_connect :: "exn option"
  env_cursor :: "exn option"
  env_execute :: "string \<Rightarrow> json list \<Rightarrow> exn + 'v row list"
  env_cursor_close :: "exn option"
  env_conn_close :: "exn option"
  env_int_of_str :: "string \<Rightarrow> exn + int"
  env_round :: "'v \<Rightarrow> nat \<Rightarrow> exn + 'v"
  env_json_default :: "'v \<Rightarrow> exn option"
  env_now :: string

definition emit :: "db_event \<Rightarrow> ('v world, unit) io" where
  "emit ev = (\<lambda>w. (Inr (), w\<lparr>events := events w @ [ev]\<rparr>))"

definition outcome :: "exn option \<Rightarrow> ('w, unit) io" where
  "outcome r = (case r of None \<Rightarrow> io_return () | Some e \<Rightarrow> io_raise e)"

definition db_call :: "db_event \<Rightarrow> exn option \<Rightarrow> ('v world, unit) io" where
  "db_call ev r = io_bind (emit ev) (\<lambda>_. outcome r)"

definition cur_execute :: "'v env \<Rightarrow> string \<Rightarrow> json list \<Rightarrow> ('v world, unit) io" where
  "cur_execute env q ps =
     io_bind (emit (Execute q ps)) (\<lambda>_.
       case env_execute env q ps of
         Inl e \<Rightarrow> io_raise e
       | Inr rows \<Rightarrow> (\<lambda>w. (Inr (), w\<lparr>result_set := Some rows\<rparr>)))"

definition cur_fetchall :: "('v world, 'v row list) io" where
  "cur_fetchall =
     io_bind (emit Fetchall) (\<lambda>_. \<lambda>w.
       case result_set w of
         None \<Rightarrow> (Inl (Exn LibraryError ''no results to fetch''), w)
       | Some rows \<Rightarrow> (Inr rows, w))"

section \<open>app.py\<close>

text \<open>
  \<^verbatim>\<open>get_db_connection\<close>, lines 11 to 15: the subscript \<^verbatim>\<open>os.environ["DATABASE_URL"]\<close> is
  evaluated first and raises KeyError when the variable is unset; only then is
  \<^verbatim>\<open>psycopg2.connect\<close> called.
\<close>

definition get_db_connection :: "'v env \<Rightarrow> ('v world, unit) io" where
  "get_db_connection env =
     (case env_database_url env of
        None \<Rightarrow> io_raise (key_error ''DATABASE_URL'')
      | Some url \<Rightarrow> db_call Connect (env_connect env))"

definition generate_users_sql :: string where
  "generate_users_sql = ''SELECT * FROM generate_fake_users(%s, %s, %s, %s)''"

definition generate_users ::
  "'v env \<Rightarrow> json \<Rightarrow> int \<Rightarrow> int \<Rightarrow> int \<Rightarrow> ('v world, 'v row list) io" where
  "generate_users env locale seed batch_index batch_size =
     io_bind (get_db_connection env) (\<lambda>conn.
     io_bind (db_call Cursor (env_cursor env)) (\<lambda>cur.
     io_bind (cur_execute env generate_users_sql
                [locale, JInt seed, JInt batch_index, JInt batch_size]) (\<lambda>_.
     io_bind cur_fetchall (\<lambda>users.
     io_bind (db_call CursorClose (env_cursor_close env)) (\<lambda>_.
     io_bind (db_call ConnClose (env_conn_close env)) (\<lambda>_.
     io_return users))))))"

text \<open>A response: the status code and the object handed to \<^verbatim>\<open>jsonify\<close>.\<close>

datatype 'v body_val = VStr string | VInt int | VJson json | VUsers "'v row list"

record 'v response =
  status :: nat
  body :: "(string \<times> 'v body_val) list"

text \<open>
  The loop of lines 68 to 70 on one user: \<^verbatim>\<open>user['latitude']\<close> raises KeyError on a
  missing key, \<^verbatim>\<open>round\<close> may raise, the assignment replaces the value in place.
\<close>

definition round_field :: "'v env \<Rightarrow> string \<Rightarrow> 'v row \<Rightarrow> exn + 'v row" where
  "round_field env k user =
     (case map_of user k of
        None \<Rightarrow> Inl (key_error k)
      | Some v \<Rightarrow>
          (case env_round env v 6 of
             Inl e \<Rightarrow> Inl e
           | Inr r \<Rightarrow> Inr (AList.update k r user)))"

definition round_user :: "'v env \<Rightarrow> 'v row \<Rightarrow> exn + 'v row" where
  "round_user env user =
     (case round_field env ''latitude'' user of
        Inl e \<Rightarrow> Inl e
      | Inr user' \<Rightarrow> round_field env ''longitude'' user')"

fun round_users :: "'v env \<Rightarrow> 'v row list \<Rightarrow> exn + 'v row list" where
  "round_users env [] = Inr []"
| "round_users env (user # users) =
     (case round_user env user of
        Inl e \<Rightarrow> Inl e
      | Inr user' \<Rightarrow>
          (case round_users env users of
             Inl e \<Rightarrow> Inl e
           | Inr users' \<Rightarrow> Inr (user' # users')))"

text \<open>
  \<^verbatim>\<open>jsonify\<close> of the success body walks the users in order and raises at the first value
  it has no encoding for; every other part of a body is a string, an int or a value
  that came out of the JSON parser.
\<close>

fun first_error :: "('a \<Rightarrow> exn option) \<Rightarrow> 'a list \<Rightarrow> exn option" where
  "first_error f [] = None"
| "first_error f (x # xs) = (case f x of Some e \<Rightarrow> Some e | None \<Rightarrow> first_error f xs)"

definition jsonify_users :: "'v env \<Rightarrow> 'v row list \<Rightarrow> exn option" where
  "jsonify_users env users =
     first_error (\<lambda>user. first_error (\<lambda>kv. env_json_default env (snd kv)) user) users"

record request =
  req_json :: "exn + json"

definition get_int :: "'v env \<Rightarrow> json \<Rightarrow> string \<Rightarrow> int \<Rightarrow> exn + int" where
  "get_int env data k d =
     (case dict_get data k (JInt d) of
        Inl e \<Rightarrow> Inl e
      | Inr v \<Rightarrow> py_int (env_int_of_str env) v)"

definition batch_size_error :: string where
  "batch_size_error = ''Batch size must be between 1 and 100''"

definition seed_error :: string where
  "seed_error = ''Seed must be between 0 and 2147483647''"

text \<open>The body of the \<^verbatim>\<open>try\<close> block of \<^verbatim>\<open>api_generate\<close>, lines 52 to 79.\<close>

definition api_generate_try :: "'v env \<Rightarrow> request \<Rightarrow> ('v world, 'v response) io" where
  "api_generate_try env req =
     io_bind (io_lift (req_json req)) (\<lambda>data.
     io_bind (io_lift (dict_get data ''locale'' (JStr ''en_US''))) (\<lambda>locale.
     io_bind (io_lift (get_int env data ''seed'' 12345)) (\<lambda>seed.
     io_bind (io_lift (get_int env data ''batch_index'' 0)) (\<lambda>batch_index.
     io_bind (io_lift (get_int env data ''batch_size'' 10)) (\<lambda>batch_size.
       if batch_size < 1 \<or> batch_size > 100 then
         io_return \<lparr>status = 400, body = [(''error'', VStr batch_size_error)]\<rparr>
       else if seed < 0 \<or> seed > 2147483647 then
         io_return \<lparr>status = 400, body = [(''error'', VStr seed_error)]\<rparr>
       else
         io_bind (generate_users env locale seed batch_index batch_size) (\<lambda>users.
         io_bind (io_lift (round_users env users)) (\<lambda>users'.
         io_bind (outcome (jsonify_users env users')) (\<lambda>_.
           io_return \<lparr>status = 200, body =
             [(''users'', VUsers users'),
              (''locale'', VJson locale),
              (''seed'', VInt seed),
              (''batch_index'', VInt batch_index),
              (''batch_size'', VInt batch_size),
              (''timestamp'', VStr (env_now env))]\<rparr>))))))))"

text \<open>The handler: the \<^verbatim>\<open>try\<close> block under \<^verbatim>\<open>except Exception as e\<close>, lines 81 and 82.\<close>

definition api_generate :: "'v env \<Rightarrow> request \<Rightarrow> 'v world \<Rightarrow> 'v response \<times> 'v world" where
  "api_generate env req w =
     (case api_generate_try env req w of
        (Inl e, w') \<Rightarrow> (\<lparr>status = 500, body = [(''error'', VStr (str_exn e))]\<rparr>, w')
      | (Inr r, w') \<Rightarrow> (r, w'))"

text \<open>\<^verbatim>\<open>health\<close>, lines 86 to 95: the cursor is opened, runs one statement and is closed.\<close>

definition health_try :: "'v env \<Rightarrow> ('v world, 'v response) io" where
  "health_try env =
     io_bind (get_db_connection env) (\<lambda>conn.
     io_bind (db_call Cursor (env_cursor env)) (\<lambda>cur.
     io_bind (cur_execute env ''SELECT 1'' []) (\<lambda>_.
     io_bind (db_call CursorClose (env_cursor_close env)) (\<lambda>_.
     io_bind (db_call ConnClose (env_conn_close env)) (\<lambda>_.
       io_return \<lparr>status = 200, body =
         [(''status'', VStr ''healthy''), (''database'', VStr ''connected'')]\<rparr>)))))"

definition health :: "'v env \<Rightarrow> 'v world \<Rightarrow> 'v response \<times> 'v world" where
  "health env w =
     (case health_try env w of
        (Inl e, w') \<Rightarrow>
          (\<lparr>status = 500, body =
              [(''status'', VStr ''unhealthy''), (''error'', VStr (str_exn e))]\<rparr>, w')
      | (Inr r, w') \<Rightarrow> (r, w'))"

section \<open>benchmark.py\<close>

text \<open>
  The benchmark's world: the database calls made, the number of clock readings taken and
  the lines printed. \<open>bench_time env k\<close> is what the \<open>k\<close>-th call of \<^verbatim>\<open>time.time()\<close>
  returns. Times, elapsed times and throughputs are Python floats. The arithmetic of doubles
  is a collaborator: \<open>bench_float env n\<close> is the conversion of the int \<open>n\<close> to a float,
  which raises OverflowError beyond the range of a double, \<open>bench_sub env a b\<close> is the
  float \<^verbatim>\<open>a - b\<close> and \<open>bench_div env a b\<close> the float quotient of \<open>a\<close> by a non-zero \<open>b\<close>,
  both rounded as the machine rounds them.
\<close>

datatype bench_line = Generating int | Timing pyfloat pyfloat

record bench_world =
  bench_events :: "db_event list"
  bench_clock :: nat
  bench_stdout :: "bench_line list"

record bench_env =
  bench_connect :: "exn option"
  bench_cursor :: "exn option"
  bench_execute :: "string \<Rightarrow> json list \<Rightarrow> exn option"
  bench_commit :: "exn option"
  bench_time :: "nat \<Rightarrow> pyfloat"
  bench_float :: "int \<Rightarrow> exn + pyfloat"
  bench_sub :: "pyfloat \<Rightarrow> pyfloat \<Rightarrow> pyfloat"
  bench_div :: "pyfloat \<Rightarrow> pyfloat \<Rightarrow> pyfloat"

definition bench_emit :: "db_event \<Rightarrow> (bench_world, unit) io" where
  "bench_emit ev = (\<lambda>w. (Inr (), w\<lparr>bench_events := bench_events w @ [ev]\<rparr>))"

definition bench_call :: "db_event \<Rightarrow> exn option \<Rightarrow> (bench_world, unit) io" where
  "bench_call ev r = io_bind (bench_emit ev) (\<lambda>_. outcome r)"

definition print_line :: "bench_line \<Rightarrow> (bench_world, unit) io" where
  "print_line l = (\<lambda>w. (Inr (), w\<lparr>bench_stdout := bench_stdout w @ [l]\<rparr>))"

definition time_time :: "bench_env \<Rightarrow> (bench_world, pyfloat) io" where
  "time_time env = (\<lambda>w. (Inr (bench_time env (bench_clock w)), w\<lparr>bench_clock := Suc (bench_clock w)\<rparr>))"

fun float_is_zero :: "pyfloat \<Rightarrow> bool" where
  "float_is_zero (Finite q) = (q = 0)"
| "float_is_zero x = False"

fun float_positive :: "pyfloat \<Rightarrow> bool" where
  "float_positive (Finite q) = (0 < q)"
| "float_positive PosInf = True"
| "float_positive x = False"

text \<open>
  \<^verbatim>\<open>count / elapsed\<close> with an int on the left and a float on the right: the int is
  converted to a float first, then a zero divisor raises, then the doubles are divided.
\<close>

definition true_div :: "bench_env \<Rightarrow> int \<Rightarrow> pyfloat \<Rightarrow> exn + pyfloat" where
  "true_div env count elapsed =
     (case bench_float env count of
        Inl e \<Rightarrow> Inl e
      | Inr c \<Rightarrow>
          if float_is_zero elapsed then Inl (Exn ZeroDivisionError ''float division by zero'')
          else Inr (bench_div env c elapsed))"

text \<open>
  Leaving a \<^verbatim>\<open>with\<close> block: the cursor is closed; the connection commits after a normal
  exit and rolls back after an exception, which is raised again, and is closed.
\<close>

definition with_cursor :: "(bench_world, 'a) io \<Rightarrow> (bench_world, 'a) io" where
  "with_cursor block = (\<lambda>w.
     case block w of
       (r, w') \<Rightarrow> (r, w'\<lparr>bench_events := bench_events w' @ [CursorClose]\<rparr>))"

definition with_connection :: "bench_env \<Rightarrow> (bench_world, 'a) io \<Rightarrow> (bench_world, 'a) io" where
  "with_connection env block = (\<lambda>w.
     case block w of
       (Inl e, w') \<Rightarrow> (Inl e, w'\<lparr>bench_events := bench_events w' @ [Rollback, ConnClose]\<rparr>)
     | (Inr a, w') \<Rightarrow>
         io_bind (bench_call Commit (bench_commit env)) (\<lambda>_.
         io_bind (bench_emit ConnClose) (\<lambda>_. io_return a)) w')"

definition benchmark_sql :: string where
  "benchmark_sql = ''SELECT generate_fake_users(%s, %s, %s);''"

text \<open>The \<^verbatim>\<open>for\<close> loop of lines 12 to 27, with \<open>results\<close> as the accumulator.\<close>

fun benchmark_loop ::
  "bench_env \<Rightarrow> string \<Rightarrow> int \<Rightarrow> int list \<Rightarrow> (int \<times> pyfloat \<times> pyfloat) list
     \<Rightarrow> (bench_world, (int \<times> pyfloat \<times> pyfloat) list) io" where
  "benchmark_loop env locale seed [] results = io_return results"
| "benchmark_loop env locale seed (count # user_counts) results =
     io_bind (print_line (Generating count)) (\<lambda>_.
     io_bind (time_time env) (\<lambda>start.
     io_bind (bench_call (Execute benchmark_sql [JStr locale, JInt seed, JInt count])
                (bench_execute env benchmark_sql [JStr locale, JInt seed, JInt count])) (\<lambda>_.
     io_bind (bench_call Commit (bench_commit env)) (\<lambda>_.
     io_bind (time_time env) (\<lambda>stop.
     io_bind (io_return (bench_sub env stop start)) (\<lambda>elapsed.
     io_bind (io_lift (true_div env count elapsed)) (\<lambda>throughput.
     io_bind (print_line (Timing elapsed throughput)) (\<lambda>_.
       benchmark_loop env locale seed user_counts
         (results @ [(count, elapsed, throughput)])))))))))"

definition run_benchmark ::
  "bench_env \<Rightarrow> int list \<Rightarrow> string \<Rightarrow> int
     \<Rightarrow> (bench_world, (int \<times> pyfloat \<times> pyfloat) list) io" where
  "run_benchmark env user_counts locale seed =
     io_bind (bench_call Connect (bench_connect env)) (\<lambda>conn.
       with_connection env
         (io_bind (bench_call Cursor (bench_cursor env)) (\<lambda>cur.
            with_cursor (benchmark_loop env locale seed user_counts []))))"

section \<open>Vocabulary of the properties and a sample environment\<close>

text \<open>
  \<open>has_coordinates\<close> says that a row holds a latitude and a longitude that \<^verbatim>\<open>round\<close>
  accepts; \<open>coords_rounded env user user'\<close> says that \<open>user'\<close> is \<open>user\<close> with both
  replaced by their rounded values. \<open>request_defaults\<close> lists the defaults of section 4.5
  of the specification. The sample environment is a database that answers every query
  with one row, used to run the handlers on concrete requests.
\<close>

definition has_coordinates :: "'v env \<Rightarrow> 'v row \<Rightarrow> bool" where
  "has_coordinates env user =
     ((case map_of user ''latitude'' of
         None \<Rightarrow> False
       | Some v \<Rightarrow> (case env_round env v 6 of Inl e \<Rightarrow> False | Inr r \<Rightarrow> True))
      \<and> (case map_of user ''longitude'' of
         None \<Rightarrow> False
       | Some v \<Rightarrow> (case env_round env v 6 of Inl e \<Rightarrow> False | Inr r \<Rightarrow> True)))"

definition coords_rounded :: "'v env \<Rightarrow> 'v row \<Rightarrow> 'v row \<Rightarrow> bool" where
  "coords_rounded env user user' =
     (case (map_of user ''latitude'', map_of user ''longitude'') of
        (Some lat, Some lon) \<Rightarrow>
          (case (env_round env lat 6, env_round env lon 6) of
             (Inr rlat, Inr rlon) \<Rightarrow>
               user' = AList.update ''longitude'' rlon (AList.update ''latitude'' rlat user)
           | _ \<Rightarrow> False)
      | _ \<Rightarrow> False)"

abbreviation error_response :: "nat \<Rightarrow> string \<Rightarrow> 'v response" where
  "error_response code msg \<equiv> \<lparr>status = code, body = [(''error'', VStr msg)]\<rparr>"

abbreviation healthy_response :: "'v response" where
  "healthy_response \<equiv>
     \<lparr>status = 200, body = [(''status'', VStr ''healthy''), (''database'', VStr ''connected'')]\<rparr>"

abbreviation unhealthy_response :: "exn \<Rightarrow> 'v response" where
  "unhealthy_response e \<equiv>
     \<lparr>status = 500, body = [(''status'', VStr ''unhealthy''), (''error'', VStr (str_exn e))]\<rparr>"

definition request_defaults :: "(string \<times> json) list" where
  "request_defaults =
     [(''locale'', JStr ''en_US''), (''seed'', JInt 12345),
      (''batch_index'', JInt 0), (''batch_size'', JInt 10)]"

text \<open>
  The values of the sample database are NULL, text and numbers. \<open>sample_round v n\<close> rounds a
  number to \<open>n\<close> decimal places and raises on the rest, as \<^verbatim>\<open>round(None, 6)\<close> does.
\<close>

datatype sqlval = SqlNull | SqlText string | SqlNum real

fun sample_round :: "sqlval \<Rightarrow> nat \<Rightarrow> exn + sqlval" where
  "sample_round (SqlNum x) n = Inr (SqlNum (of_int \<lfloor>x * 10 ^ n + 1 / 2\<rfloor> / 10 ^ n))"
| "sample_round v n = Inl (Exn TypeError ''type cannot be rounded'')"

definition sample_rows :: "sqlval row list" where
  "sample_rows =
     [[(''full_name'', SqlText ''Ann Lee''), (''latitude'', SqlNum (12345678 / 10000000)),
       (''longitude'', SqlNum (- 3))]]"

definition sample_env :: "sqlval env" where
  "sample_env = \<lparr>
     env_database_url = Some ''postgresql://localhost/fake_users'',
     env_connect = None, env_cursor = None,
     env_execute = (\<lambda>q ps. Inr sample_rows),
     env_cursor_close = None, env_conn_close = None,
     env_int_of_str = (\<lambda>s. Inl (Exn ValueError ''invalid literal for int() with base 10'')),
     env_round = sample_round,
     env_json_default = (\<lambda>v. None),
     env_now = ''2024-01-01T00:00:00'' \<rparr>"

definition fresh_world :: "sqlval world" where
  "fresh_world = \<lparr>events = [], result_set = None\<rparr>"

definition refusing_env :: "sqlval env" where
  "refusing_env = sample_env\<lparr>env_connect := Some (Exn LibraryError ''connection refused'')\<rparr>"

definition valid_request_kvs :: "(string \<times> json) list" where
  "valid_request_kvs =
     [(''locale'', JStr ''de_DE''), (''seed'', JInt 42), (''batch_index'', JInt 0),
      (''batch_size'', JInt 5)]"

definition generated_world :: "json list \<Rightarrow> sqlval world" where
  "generated_world params =
     \<lparr>events = [Connect, Cursor, Execute generate_users_sql params, Fetchall, CursorClose,
                 ConnClose],
      result_set = Some sample_rows\<rparr>"

definition no_latitude_env :: "sqlval env" where
  "no_latitude_env = sample_env\<lparr>env_execute := (\<lambda>q ps.
     Inr [[(''full_name'', SqlText ''Ann Lee''), (''longitude'', SqlNum 2)]])\<rparr>"

definition no_latitude_world :: "sqlval world" where
  "no_latitude_world =
     \<lparr>events = [Connect, Cursor,
                 Execute generate_users_sql [JStr ''de_DE'', JInt 42, JInt 0, JInt 5],
                 Fetchall, CursorClose, ConnClose],
      result_set = Some [[(''full_name'', SqlText ''Ann Lee''), (''longitude'', SqlNum 2)]]\<rparr>"

definition unset_url_env :: "sqlval env" where
  "unset_url_env = sample_env\<lparr>env_database_url := None\<rparr>"

definition null_latitude_env :: "sqlval env" where
  "null_latitude_env = sample_env\<lparr>env_execute := (\<lambda>q ps.
     Inr [[(''full_name'', SqlText ''Ann Lee''), (''latitude'', SqlNull),
           (''longitude'', SqlNum 2)]])\<rparr>"

definition stale_env :: "sqlval env" where
  "stale_env = sample_env\<lparr>env_conn_close := Some (Exn LibraryError ''connection already closed'')\<rparr>"

definition down_env :: "sqlval env" where
  "down_env = sample_env\<lparr>env_execute := (\<lambda>q ps. Inl (Exn LibraryError ''server closed the connection''))\<rparr>"

text \<open>
  The benchmark's sample arithmetic is exact on finite values; it agrees with the
  arithmetic of doubles wherever the operands and the exact result are doubles, as they are
  for the readings and counts used below, and like it refuses an int of magnitude
  \<open>2 ^ 1024\<close> or more. The sample clocks: one that advances by two seconds per reading,
  one that stands still and one that steps back.
\<close>

fun exact_sub :: "pyfloat \<Rightarrow> pyfloat \<Rightarrow> pyfloat" where
  "exact_sub (Finite a) (Finite b) = Finite (a - b)"
| "exact_sub a b = NaN"

fun exact_div :: "pyfloat \<Rightarrow> pyfloat \<Rightarrow> pyfloat" where
  "exact_div (Finite a) (Finite b) = Finite (a / b)"
| "exact_div a b = NaN"

definition sample_float :: "int \<Rightarrow> exn + pyfloat" where
  "sample_float n =
     (if 2 ^ 1024 \<le> \<bar>n\<bar> then Inl (Exn OverflowError ''int too large to convert to float'')
      else Inr (Finite (of_int n)))"

definition steady_clock_env :: bench_env where
  "steady_clock_env = \<lparr>
     bench_connect = None, bench_cursor = None,
     bench_execute = (\<lambda>q ps. None), bench_commit = None,
     bench_time = (\<lambda>k. Finite (2 * of_nat k)),
     bench_float = sample_float, bench_sub = exact_sub, bench_div = exact_div\<rparr>"

definition frozen_clock_env :: bench_env where
  "frozen_clock_env = steady_clock_env\<lparr>bench_time := (\<lambda>k. Finite 1700000000)\<rparr>"

definition backward_clock_env :: bench_env where
  "backward_clock_env =
     steady_clock_env\<lparr>bench_time := (\<lambda>k. if k = 0 then Finite 5 else Finite 3)\<rparr>"

definition fresh_bench_world :: bench_world where
  "fresh_bench_world = \<lparr>bench_events = [], bench_clock = 0, bench_stdout = []\<rparr>"

section \<open>Properties\<close>

lemma io_bind_lift_Inr: "io_bind (io_lift (Inr a)) f w = f a w"
  by (simp add: io_bind_def io_lift_def)

lemma io_bind_lift_Inl: "io_bind (io_lift (Inl e)) f w = (Inl e, w)"
  by (simp add: io_bind_def io_lift_def)

lemma api_generate_try_parsed:
  assumes "req_json req = Inr (JObj kvs)"
    and "get_int env (JObj kvs) ''seed'' 12345 = Inr seed"
    and "get_int env (JObj kvs) ''batch_index'' 0 = Inr batch_index"
    and "get_int env (JObj kvs) ''batch_size'' 10 = Inr batch_size"
  shows "api_generate_try env req w =
     (if batch_size < 1 \<or> batch_size > 100 then
        (Inr \<lparr>status = 400, body = [(''error'', VStr batch_size_error)]\<rparr>, w)
      else if seed < 0 \<or> seed > 2147483647 then
        (Inr \<lparr>status = 400, body = [(''error'', VStr seed_error)]\<rparr>, w)
      else
        io_bind (generate_users env
                   (case map_of kvs ''locale'' of None \<Rightarrow> JStr ''en_US'' | Some v \<Rightarrow> v)
                   seed batch_index batch_size) (\<lambda>users.
        io_bind (io_lift (round_users env users)) (\<lambda>users'.
        io_bind (outcome (jsonify_users env users')) (\<lambda>_.
          io_return \<lparr>status = 200, body =
            [(''users'', VUsers users'),
             (''locale'', VJson (case map_of kvs ''locale'' of None \<Rightarrow> JStr ''en_US'' | Some v \<Rightarrow> v)),
             (''seed'', VInt seed),
             (''batch_index'', VInt batch_index),
             (''batch_size'', VInt batch_size),
             (''timestamp'', VStr (env_now env))]\<rparr>))) w)"
  using assms by (simp add: api_generate_try_def io_bind_lift_Inr io_return_def)

lemma map_of_round_field:
  "round_field env k user = Inr user' \<Longrightarrow> k' \<noteq> k \<Longrightarrow> map_of user' k' = map_of user k'"
  by (auto simp: round_field_def update_conv' split: option.splits sum.splits)

lemma round_user_missing:
  assumes "map_of user ''latitude'' = None \<or> map_of user ''longitude'' = None"
  shows "\<exists>e. round_user env user = Inl e"
proof (cases "round_field env ''latitude'' user")
  case (Inl e)
  then show ?thesis by (simp add: round_user_def)
next
  case (Inr user')
  then have lat: "map_of user ''latitude'' \<noteq> None"
    by (auto simp: round_field_def split: option.splits)
  have "map_of user' ''longitude'' = map_of user ''longitude''"
    using Inr by (rule map_of_round_field) simp
  with assms lat have "map_of user' ''longitude'' = None" by simp
  then show ?thesis using Inr by (simp add: round_user_def round_field_def)
qed

lemma round_users_missing:
  assumes "\<exists>user \<in> set users. map_of user ''latitude'' = None \<or> map_of user ''longitude'' = None"
  shows "\<exists>e. round_users env users = Inl e"
  using assms
proof (induction users)
  case Nil
  then show ?case by simp
next
  case (Cons user users)
  show ?case
  proof (cases "round_user env user")
    case (Inl e)
    then show ?thesis by simp
  next
    case (Inr user')
    have "\<not> (map_of user ''latitude'' = None \<or> map_of user ''longitude'' = None)"
    proof
      assume "map_of user ''latitude'' = None \<or> map_of user ''longitude'' = None"
      then obtain e where "round_user env user = Inl e"
        using round_user_missing by blast
      with Inr show False by simp
    qed
    with Cons.prems have "\<exists>u \<in> set users. map_of u ''latitude'' = None \<or> map_of u ''longitude'' = None"
      by auto
    then obtain e where "round_users env users = Inl e" using Cons.IH by blast
    then show ?thesis using Inr by simp
  qed
qed

lemma round_user_ok:
  assumes "has_coordinates env user"
  shows "\<exists>user'. round_user env user = Inr user' \<and> coords_rounded env user user'"
  using assms
  by (auto simp: has_coordinates_def coords_rounded_def round_user_def round_field_def update_conv'
      split: option.splits sum.splits)

lemma round_users_ok:
  assumes "\<forall>user \<in> set users. has_coordinates env user"
  shows "\<exists>users'. round_users env users = Inr users' \<and> list_all2 (coords_rounded env) users users'"
  using assms
proof (induction users)
  case Nil
  then show ?case by simp
next
  case (Cons user users)
  then obtain users' where us: "round_users env users = Inr users'"
    "list_all2 (coords_rounded env) users users'" by auto
  from Cons.prems obtain user' where u: "round_user env user = Inr user'"
    "coords_rounded env user user'" using round_user_ok [of env user] by auto
  show ?case using us u by simp
qed

lemmas model_defs =
  api_generate_def api_generate_try_def generate_users_def get_db_connection_def db_call_def
  cur_execute_def cur_fetchall_def emit_def outcome_def io_bind_def io_return_def io_raise_def
  io_lift_def get_int_def round_user_def round_field_def jsonify_users_def health_def
  health_try_def generate_users_sql_def

lemmas sample_defs = sample_env_def fresh_world_def sample_rows_def

lemma batch_size_error_text:
  "sublist ''Batch size'' batch_size_error \<and> \<not> sublist ''Seed'' batch_size_error
   \<and> \<not> sublist ''seed'' batch_size_error"
  by (simp add: batch_size_error_def sublist_code)

lemma seed_error_text: "sublist ''Seed'' seed_error"
  by (simp add: seed_error_def sublist_code)

text \<open>
  C1 as stated fails: with an integer \<^verbatim>\<open>batch_size\<close> of 0 and a \<^verbatim>\<open>seed\<close> of \<^verbatim>\<open>null\<close>, the
  conversion \<^verbatim>\<open>int(None)\<close> of line 54 raises before the check of line 59, and the
  response is 500, not 400.
\<close>

theorem batch_size_regardless_counterexample:
  "status (fst (api_generate sample_env
      \<lparr>req_json = Inr (JObj [(''batch_size'', JInt 0), (''seed'', JNull)])\<rparr> fresh_world)) = 500"
  by (simp add: model_defs sample_defs)

text \<open>
  C1 (amended): for every request with a JSON object body whose \<^verbatim>\<open>seed\<close>,
  \<^verbatim>\<open>batch_index\<close> and \<^verbatim>\<open>batch_size\<close> are omitted or values \<^verbatim>\<open>int()\<close> accepts, a
  \<^verbatim>\<open>batch_size\<close> outside [1,100] gives status 400 with the error message about the batch
  size, whatever the locale, the seed and the batch index are.
\<close>

theorem batch_size_out_of_range:
  assumes "req_json req = Inr (JObj kvs)"
    and "get_int env (JObj kvs) ''seed'' 12345 = Inr seed"
    and "get_int env (JObj kvs) ''batch_index'' 0 = Inr batch_index"
    and "get_int env (JObj kvs) ''batch_size'' 10 = Inr batch_size"
    and "batch_size < 1 \<or> 100 < batch_size"
  shows "fst (api_generate env req w) =
           \<lparr>status = 400, body = [(''error'', VStr batch_size_error)]\<rparr>
         \<and> sublist ''Batch size'' batch_size_error"
  using assms batch_size_error_text
  by (simp add: api_generate_def api_generate_try_parsed [OF assms(1-4)])

theorem batch_size_out_of_range_witness:
  "fst (api_generate sample_env
      \<lparr>req_json = Inr (JObj [(''locale'', JArr []), (''seed'', JInt (- 7)),
         (''batch_index'', JInt 3), (''batch_size'', JInt 101)])\<rparr> fresh_world) =
     \<lparr>status = 400, body = [(''error'', VStr batch_size_error)]\<rparr>
   \<and> sublist ''Batch size'' batch_size_error"
  using batch_size_out_of_range [of
      "\<lparr>req_json = Inr (JObj [(''locale'', JArr []), (''seed'', JInt (- 7)),
         (''batch_index'', JInt 3), (''batch_size'', JInt 101)])\<rparr>"
      "[(''locale'', JArr []), (''seed'', JInt (- 7)),
         (''batch_index'', JInt 3), (''batch_size'', JInt 101)]"
      sample_env "- 7" 3 101 fresh_world]
  by (simp add: get_int_def)

text \<open>
  C2 as stated fails: with \<^verbatim>\<open>seed = -1\<close>, \<^verbatim>\<open>batch_size = 5\<close> and a \<^verbatim>\<open>batch_index\<close> of
  \<^verbatim>\<open>null\<close>, the conversion \<^verbatim>\<open>int(None)\<close> of line 55 raises before either range check,
  and the response is 500, not the 400 seed error.
\<close>

theorem seed_out_of_range_counterexample:
  "status (fst (api_generate sample_env
      \<lparr>req_json = Inr (JObj [(''seed'', JInt (- 1)), (''batch_size'', JInt 5),
         (''batch_index'', JNull)])\<rparr> fresh_world)) = 500"
  by (simp add: model_defs sample_defs)

text \<open>
  C2 (amended): for every request with a JSON object body whose \<^verbatim>\<open>seed\<close>,
  \<^verbatim>\<open>batch_index\<close> and \<^verbatim>\<open>batch_size\<close> are omitted or values \<^verbatim>\<open>int()\<close> accepts, a seed
  outside [0, 2147483647] with a batch size within [1,100] gives status 400 with the error
  message about the seed.
\<close>

theorem seed_out_of_range:
  assumes "req_json req = Inr (JObj kvs)"
    and "get_int env (JObj kvs) ''seed'' 12345 = Inr seed"
    and "get_int env (JObj kvs) ''batch_index'' 0 = Inr batch_index"
    and "get_int env (JObj kvs) ''batch_size'' 10 = Inr batch_size"
    and "1 \<le> batch_size" and "batch_size \<le> 100"
    and "seed < 0 \<or> 2147483647 < seed"
  shows "fst (api_generate env req w) =
           \<lparr>status = 400, body = [(''error'', VStr seed_error)]\<rparr>
         \<and> sublist ''Seed'' seed_error"
  using assms seed_error_text
  by (simp add: api_generate_def api_generate_try_parsed [OF assms(1-4)])

theorem seed_out_of_range_witness:
  "fst (api_generate sample_env
      \<lparr>req_json = Inr (JObj [(''seed'', JInt 2147483648), (''batch_size'', JInt 100)])\<rparr>
      fresh_world) =
     \<lparr>status = 400, body = [(''error'', VStr seed_error)]\<rparr>
   \<and> sublist ''Seed'' seed_error"
  using seed_out_of_range [of
      "\<lparr>req_json = Inr (JObj [(''seed'', JInt 2147483648), (''batch_size'', JInt 100)])\<rparr>"
      "[(''seed'', JInt 2147483648), (''batch_size'', JInt 100)]"
      sample_env 2147483648 0 100 fresh_world]
  by (simp add: get_int_def)




text \<open>
  C5: a request that fails range validation is answered with 400 and the world is left
  as it was: no connection is opened and no statement is executed.
\<close>

theorem validation_before_database:
  assumes "req_json req = Inr (JObj kvs)"
    and "get_int env (JObj kvs) ''seed'' 12345 = Inr seed"
    and "get_int env (JObj kvs) ''batch_index'' 0 = Inr batch_index"
    and "get_int env (JObj kvs) ''batch_size'' 10 = Inr batch_size"
    and "batch_size < 1 \<or> 100 < batch_size \<or> seed < 0 \<or> 2147483647 < seed"
  shows "status (fst (api_generate env req w)) = 400
         \<and> snd (api_generate env req w) = w
         \<and> events (snd (api_generate env req w)) = events w"
  using assms
  by (auto simp add: api_generate_def api_generate_try_parsed [OF assms(1-4)])

theorem validation_before_database_witness:
  "status (fst (api_generate sample_env
      \<lparr>req_json = Inr (JObj [(''seed'', JInt (- 1))])\<rparr> fresh_world)) = 400
   \<and> snd (api_generate sample_env
      \<lparr>req_json = Inr (JObj [(''seed'', JInt (- 1))])\<rparr> fresh_world) = fresh_world
   \<and> events (snd (api_generate sample_env
      \<lparr>req_json = Inr (JObj [(''seed'', JInt (- 1))])\<rparr> fresh_world)) = events fresh_world"
  using validation_before_database [of
      "\<lparr>req_json = Inr (JObj [(''seed'', JInt (- 1))])\<rparr>" "[(''seed'', JInt (- 1))]"
      sample_env "- 1" 0 10 fresh_world]
  by (simp add: get_int_def)

lemma api_generate_try_status:
  assumes "api_generate_try env req w = (Inr r, w')"
  shows "status r = 200 \<or> status r = 400"
  using assms
  by (auto simp: api_generate_try_def io_bind_def io_lift_def io_return_def
      split: sum.splits prod.splits if_splits)

lemma api_generate_try_valid:
  assumes "req_json req = Inr (JObj kvs)"
    and "get_int env (JObj kvs) ''seed'' 12345 = Inr seed"
    and "get_int env (JObj kvs) ''batch_index'' 0 = Inr batch_index"
    and "get_int env (JObj kvs) ''batch_size'' 10 = Inr batch_size"
    and "1 \<le> batch_size" and "batch_size \<le> 100"
    and "0 \<le> seed" and "seed \<le> 2147483647"
    and "generate_users env (case map_of kvs ''locale'' of None \<Rightarrow> JStr ''en_US'' | Some v \<Rightarrow> v)
           seed batch_index batch_size w = (r, w')"
  shows "api_generate_try env req w =
     (case r of
        Inl e \<Rightarrow> (Inl e, w')
      | Inr users \<Rightarrow>
          (case round_users env users of
             Inl e \<Rightarrow> (Inl e, w')
           | Inr users' \<Rightarrow>
               (case jsonify_users env users' of
                  Some e \<Rightarrow> (Inl e, w')
                | None \<Rightarrow>
                    (Inr \<lparr>status = 200, body =
                       [(''users'', VUsers users'),
                        (''locale'', VJson (case map_of kvs ''locale'' of
                                              None \<Rightarrow> JStr ''en_US'' | Some v \<Rightarrow> v)),
                        (''seed'', VInt seed),
                        (''batch_index'', VInt batch_index),
                        (''batch_size'', VInt batch_size),
                        (''timestamp'', VStr (env_now env))]\<rparr>, w'))))"
  using assms(5-9)
  by (simp add: api_generate_try_parsed [OF assms(1-4)] io_bind_def io_lift_def io_return_def
      io_raise_def outcome_def split: sum.splits option.splits)

lemma api_generate_try_conversion_error:
  assumes "req_json req = Inr data"
    and "get_int env data ''seed'' 12345 = Inl e
         \<or> (\<exists>seed. get_int env data ''seed'' 12345 = Inr seed)
             \<and> get_int env data ''batch_index'' 0 = Inl e
         \<or> (\<exists>seed. get_int env data ''seed'' 12345 = Inr seed)
             \<and> (\<exists>batch_index. get_int env data ''batch_index'' 0 = Inr batch_index)
             \<and> get_int env data ''batch_size'' 10 = Inl e"
  shows "api_generate_try env req w = (Inl e, w)"
proof (cases data)
  case (JObj kvs)
  with assms show ?thesis
    by (auto simp: api_generate_try_def io_bind_lift_Inl io_bind_lift_Inr)
qed (use assms in \<open>auto simp: api_generate_try_def io_bind_lift_Inl io_bind_lift_Inr get_int_def\<close>)

text \<open>
  C4: whatever exception the \<^verbatim>\<open>try\<close> block raises, the response is 500 with the
  exception's text as the error, and 500 is returned in no other case. The raise sites
  are spelled out: \<^verbatim>\<open>request.json\<close>, the conversion of the three integer parameters (which
  covers a body that is not an object), the database call, the rounding loop and
  \<^verbatim>\<open>jsonify\<close>.
\<close>

theorem exception_gives_500:
  "(\<forall>e w'. api_generate_try env req w = (Inl e, w') \<longrightarrow>
      api_generate env req w = (error_response 500 (str_exn e), w'))
   \<and> (status (fst (api_generate env req w)) = 500
        \<longleftrightarrow> (\<exists>e. fst (api_generate_try env req w) = Inl e))
   \<and> (\<forall>e. req_json req = Inl e \<longrightarrow>
        api_generate env req w = (error_response 500 (str_exn e), w))
   \<and> (\<forall>data e. req_json req = Inr data \<and>
          (get_int env data ''seed'' 12345 = Inl e
           \<or> (\<exists>seed. get_int env data ''seed'' 12345 = Inr seed)
               \<and> get_int env data ''batch_index'' 0 = Inl e
           \<or> (\<exists>seed. get_int env data ''seed'' 12345 = Inr seed)
               \<and> (\<exists>batch_index. get_int env data ''batch_index'' 0 = Inr batch_index)
               \<and> get_int env data ''batch_size'' 10 = Inl e) \<longrightarrow>
        api_generate env req w = (error_response 500 (str_exn e), w))
   \<and> (\<forall>kvs seed batch_index batch_size r w' e.
        req_json req = Inr (JObj kvs)
        \<and> get_int env (JObj kvs) ''seed'' 12345 = Inr seed
        \<and> get_int env (JObj kvs) ''batch_index'' 0 = Inr batch_index
        \<and> get_int env (JObj kvs) ''batch_size'' 10 = Inr batch_size
        \<and> 1 \<le> batch_size \<and> batch_size \<le> 100 \<and> 0 \<le> seed \<and> seed \<le> 2147483647
        \<and> generate_users env
             (case map_of kvs ''locale'' of None \<Rightarrow> JStr ''en_US'' | Some v \<Rightarrow> v)
             seed batch_index batch_size w = (r, w')
        \<and> (r = Inl e
           \<or> (\<exists>users. r = Inr users \<and> round_users env users = Inl e)
           \<or> (\<exists>users users'. r = Inr users \<and> round_users env users = Inr users'
                 \<and> jsonify_users env users' = Some e)) \<longrightarrow>
        api_generate env req w = (error_response 500 (str_exn e), w'))"
proof (intro conjI allI impI)
  fix e w'
  assume "api_generate_try env req w = (Inl e, w')"
  then show "api_generate env req w = (error_response 500 (str_exn e), w')"
    by (simp add: api_generate_def)
next
  show "status (fst (api_generate env req w)) = 500
        \<longleftrightarrow> (\<exists>e. fst (api_generate_try env req w) = Inl e)"
  proof (cases "api_generate_try env req w")
    case (Pair r w')
    show ?thesis
    proof (cases r)
      case (Inl e)
      with Pair show ?thesis by (simp add: api_generate_def)
    next
      case (Inr resp)
      with Pair api_generate_try_status [of env req w resp w'] show ?thesis
        by (auto simp: api_generate_def)
    qed
  qed
next
  fix e
  assume "req_json req = Inl e"
  then show "api_generate env req w = (error_response 500 (str_exn e), w)"
    by (simp add: api_generate_def api_generate_try_def io_bind_lift_Inl)
next
  fix data e
  assume "req_json req = Inr data \<and>
          (get_int env data ''seed'' 12345 = Inl e
           \<or> (\<exists>seed. get_int env data ''seed'' 12345 = Inr seed)
               \<and> get_int env data ''batch_index'' 0 = Inl e
           \<or> (\<exists>seed. get_int env data ''seed'' 12345 = Inr seed)
               \<and> (\<exists>batch_index. get_int env data ''batch_index'' 0 = Inr batch_index)
               \<and> get_int env data ''batch_size'' 10 = Inl e)"
  then have "api_generate_try env req w = (Inl e, w)"
    using api_generate_try_conversion_error [of req data env e w] by blast
  then show "api_generate env req w = (error_response 500 (str_exn e), w)"
    by (simp add: api_generate_def)
next
  fix kvs seed batch_index batch_size r w' e
  assume a: "req_json req = Inr (JObj kvs)
        \<and> get_int env (JObj kvs) ''seed'' 12345 = Inr seed
        \<and> get_int env (JObj kvs) ''batch_index'' 0 = Inr batch_index
        \<and> get_int env (JObj kvs) ''batch_size'' 10 = Inr batch_size
        \<and> 1 \<le> batch_size \<and> batch_size \<le> 100 \<and> 0 \<le> seed \<and> seed \<le> 2147483647
        \<and> generate_users env
             (case map_of kvs ''locale'' of None \<Rightarrow> JStr ''en_US'' | Some v \<Rightarrow> v)
             seed batch_index batch_size w = (r, w')
        \<and> (r = Inl e
           \<or> (\<exists>users. r = Inr users \<and> round_users env users = Inl e)
           \<or> (\<exists>users users'. r = Inr users \<and> round_users env users = Inr users'
                 \<and> jsonify_users env users' = Some e))"
  then have "api_generate_try env req w = (Inl e, w')"
    using api_generate_try_valid [of req kvs env seed batch_index batch_size w r w']
    by auto
  then show "api_generate env req w = (error_response 500 (str_exn e), w')"
    by (simp add: api_generate_def)
qed

theorem exception_gives_500_witness:
  "api_generate refusing_env \<lparr>req_json = Inr (JObj [])\<rparr> fresh_world =
     (error_response 500 ''connection refused'', \<lparr>events = [Connect], result_set = None\<rparr>)
   \<and> api_generate sample_env \<lparr>req_json = Inl (Exn LibraryError ''400 Bad Request'')\<rparr> fresh_world =
     (error_response 500 ''400 Bad Request'', fresh_world)
   \<and> status (fst (api_generate sample_env \<lparr>req_json = Inr (JArr [])\<rparr> fresh_world)) = 500"
proof -
  have "api_generate_try refusing_env \<lparr>req_json = Inr (JObj [])\<rparr> fresh_world =
          (Inl (Exn LibraryError ''connection refused''),
           \<lparr>events = [Connect], result_set = None\<rparr>)"
    by (simp add: model_defs sample_defs refusing_env_def)
  moreover have "fst (api_generate_try sample_env \<lparr>req_json = Inr (JArr [])\<rparr> fresh_world) =
      Inl (Exn AttributeError (quoted ''list'' @ '' object has no attribute '' @ quoted ''get''))"
    by (simp add: api_generate_try_def io_bind_lift_Inl io_bind_lift_Inr)
  ultimately show ?thesis
    using exception_gives_500 [of refusing_env "\<lparr>req_json = Inr (JObj [])\<rparr>" fresh_world]
      exception_gives_500 [of sample_env
        "\<lparr>req_json = Inl (Exn LibraryError ''400 Bad Request'')\<rparr>" fresh_world]
      exception_gives_500 [of sample_env "\<lparr>req_json = Inr (JArr [])\<rparr>" fresh_world]
    by simp
qed

lemma sample_generate_users:
  "generate_users sample_env locale seed batch_index batch_size fresh_world =
     (Inr sample_rows, generated_world [locale, JInt seed, JInt batch_index, JInt batch_size])"
  by (simp add: model_defs sample_env_def fresh_world_def generated_world_def)

text \<open>
  C3 as stated fails: the request is valid and the generation call succeeds, returning a
  row whose latitude is NULL; \<^verbatim>\<open>round(None, 6)\<close> raises in the loop of lines 68 to 70
  and the response is 500, not 200.
\<close>

theorem generate_success_counterexample:
  "fst (generate_users null_latitude_env (JStr ''de_DE'') 42 0 5 fresh_world) =
     Inr [[(''full_name'', SqlText ''Ann Lee''), (''latitude'', SqlNull),
           (''longitude'', SqlNum 2)]]
   \<and> status (fst (api_generate null_latitude_env
         \<lparr>req_json = Inr (JObj valid_request_kvs)\<rparr> fresh_world)) = 500"
  by (simp add: model_defs sample_defs null_latitude_env_def valid_request_kvs_def)

text \<open>
  C3 (amended): for a request with valid seed and batch size (and a \<^verbatim>\<open>batch_index\<close>
  \<^verbatim>\<open>int()\<close> accepts), when the generation call succeeds and every returned row holds a
  latitude and a longitude that \<^verbatim>\<open>round\<close> accepts, the rounding loop completes, and when
  \<^verbatim>\<open>jsonify\<close> can serialise the rounded list the response is 200 with the user list in
  which every latitude and longitude is replaced by \<^verbatim>\<open>round(value, 6)\<close>, the echoed
  locale, seed, batch index and batch size, and the timestamp
  \<^verbatim>\<open>datetime.now().isoformat()\<close>.
\<close>

theorem generate_success:
  assumes "req_json req = Inr (JObj kvs)"
    and "get_int env (JObj kvs) ''seed'' 12345 = Inr seed"
    and "get_int env (JObj kvs) ''batch_index'' 0 = Inr batch_index"
    and "get_int env (JObj kvs) ''batch_size'' 10 = Inr batch_size"
    and "1 \<le> batch_size" and "batch_size \<le> 100"
    and "0 \<le> seed" and "seed \<le> 2147483647"
    and "dict_get (JObj kvs) ''locale'' (JStr ''en_US'') = Inr locale"
    and "generate_users env locale seed batch_index batch_size w = (Inr users, w')"
    and "\<forall>user \<in> set users. has_coordinates env user"
  shows "\<exists>users'. list_all2 (coords_rounded env) users users'
           \<and> (jsonify_users env users' = None \<longrightarrow>
                api_generate env req w =
                  (\<lparr>status = 200, body =
                     [(''users'', VUsers users'),
                      (''locale'', VJson locale),
                      (''seed'', VInt seed),
                      (''batch_index'', VInt batch_index),
                      (''batch_size'', VInt batch_size),
                      (''timestamp'', VStr (env_now env))]\<rparr>, w'))"
proof -
  from assms(11) obtain users' where r: "round_users env users = Inr users'"
    and l: "list_all2 (coords_rounded env) users users'"
    using round_users_ok by blast
  from assms(9)
  have loc: "(case map_of kvs ''locale'' of None \<Rightarrow> JStr ''en_US'' | Some v \<Rightarrow> v) = locale"
    by simp
  have "api_generate_try env req w =
     (case jsonify_users env users' of
        Some e \<Rightarrow> (Inl e, w')
      | None \<Rightarrow>
          (Inr \<lparr>status = 200, body =
             [(''users'', VUsers users'),
              (''locale'', VJson locale),
              (''seed'', VInt seed),
              (''batch_index'', VInt batch_index),
              (''batch_size'', VInt batch_size),
              (''timestamp'', VStr (env_now env))]\<rparr>, w'))"
    using api_generate_try_valid [OF assms(1-8), of w "Inr users" w'] assms(10) r
    unfolding loc by simp
  then show ?thesis using l by (auto simp: api_generate_def)
qed

theorem generate_success_witness:
  "api_generate sample_env \<lparr>req_json = Inr (JObj valid_request_kvs)\<rparr> fresh_world =
     (\<lparr>status = 200, body =
        [(''users'', VUsers
           [[(''full_name'', SqlText ''Ann Lee''), (''latitude'', SqlNum (1234568 / 1000000)),
             (''longitude'', SqlNum (- 3))]]),
         (''locale'', VJson (JStr ''de_DE'')),
         (''seed'', VInt 42),
         (''batch_index'', VInt 0),
         (''batch_size'', VInt 5),
         (''timestamp'', VStr ''2024-01-01T00:00:00'')]\<rparr>,
      generated_world [JStr ''de_DE'', JInt 42, JInt 0, JInt 5])"
proof -
  have rows: "\<forall>user \<in> set sample_rows. has_coordinates sample_env user"
    by (simp add: sample_rows_def has_coordinates_def sample_env_def)
  have "\<exists>users'. list_all2 (coords_rounded sample_env) sample_rows users'
           \<and> (jsonify_users sample_env users' = None \<longrightarrow>
                api_generate sample_env \<lparr>req_json = Inr (JObj valid_request_kvs)\<rparr> fresh_world =
                  (\<lparr>status = 200, body =
                     [(''users'', VUsers users'),
                      (''locale'', VJson (JStr ''de_DE'')),
                      (''seed'', VInt 42),
                      (''batch_index'', VInt 0),
                      (''batch_size'', VInt 5),
                      (''timestamp'', VStr (env_now sample_env))]\<rparr>,
                   generated_world [JStr ''de_DE'', JInt 42, JInt 0, JInt 5]))"
    by (rule generate_success [where kvs = valid_request_kvs])
      (simp_all add: valid_request_kvs_def get_int_def sample_generate_users rows)
  then obtain users' where l: "list_all2 (coords_rounded sample_env) sample_rows users'"
    and j: "jsonify_users sample_env users' = None \<longrightarrow>
                api_generate sample_env \<lparr>req_json = Inr (JObj valid_request_kvs)\<rparr> fresh_world =
                  (\<lparr>status = 200, body =
                     [(''users'', VUsers users'),
                      (''locale'', VJson (JStr ''de_DE'')),
                      (''seed'', VInt 42),
                      (''batch_index'', VInt 0),
                      (''batch_size'', VInt 5),
                      (''timestamp'', VStr (env_now sample_env))]\<rparr>,
                   generated_world [JStr ''de_DE'', JInt 42, JInt 0, JInt 5])"
    by (elim exE conjE) (rule that)
  from l have u: "users' = [[(''full_name'', SqlText ''Ann Lee''),
       (''latitude'', SqlNum (1234568 / 1000000)), (''longitude'', SqlNum (- 3))]]"
    by (simp add: sample_rows_def list_all2_Cons1 coords_rounded_def sample_env_def)
  have "jsonify_users sample_env users' = None"
    by (simp add: u jsonify_users_def sample_env_def)
  with j u show ?thesis by (simp add: sample_env_def)
qed

text \<open>
  C10: for a request that passes validation, when some row returned by the stored
  procedure lacks \<^verbatim>\<open>latitude\<close> or \<^verbatim>\<open>longitude\<close>, the rounding loop raises and the
  response is 500.
\<close>

theorem missing_coordinate_gives_500:
  assumes "req_json req = Inr (JObj kvs)"
    and "get_int env (JObj kvs) ''seed'' 12345 = Inr seed"
    and "get_int env (JObj kvs) ''batch_index'' 0 = Inr batch_index"
    and "get_int env (JObj kvs) ''batch_size'' 10 = Inr batch_size"
    and "1 \<le> batch_size" and "batch_size \<le> 100"
    and "0 \<le> seed" and "seed \<le> 2147483647"
    and "generate_users env (case map_of kvs ''locale'' of None \<Rightarrow> JStr ''en_US'' | Some v \<Rightarrow> v)
           seed batch_index batch_size w = (Inr users, w')"
    and "\<exists>user \<in> set users.
           map_of user ''latitude'' = None \<or> map_of user ''longitude'' = None"
  shows "\<exists>e. round_users env users = Inl e
           \<and> api_generate env req w = (error_response 500 (str_exn e), w')"
proof -
  from assms(10) obtain e where "round_users env users = Inl e"
    using round_users_missing by blast
  moreover from this have "api_generate_try env req w = (Inl e, w')"
    using api_generate_try_valid [OF assms(1-9)] by simp
  ultimately show ?thesis by (auto simp: api_generate_def)
qed

theorem missing_coordinate_gives_500_witness:
  "api_generate no_latitude_env \<lparr>req_json = Inr (JObj valid_request_kvs)\<rparr> fresh_world =
     (error_response 500 (quoted ''latitude''), no_latitude_world)"
proof -
  have gen: "generate_users no_latitude_env
      (case map_of valid_request_kvs ''locale'' of None \<Rightarrow> JStr ''en_US'' | Some v \<Rightarrow> v)
      42 0 5 fresh_world =
      (Inr [[(''full_name'', SqlText ''Ann Lee''), (''longitude'', SqlNum 2)]], no_latitude_world)"
    by (simp add: model_defs sample_env_def fresh_world_def no_latitude_env_def
        no_latitude_world_def valid_request_kvs_def)
  have "\<exists>e. round_users no_latitude_env
           [[(''full_name'', SqlText ''Ann Lee''), (''longitude'', SqlNum 2)]] = Inl e
         \<and> api_generate no_latitude_env \<lparr>req_json = Inr (JObj valid_request_kvs)\<rparr> fresh_world =
             (error_response 500 (str_exn e), no_latitude_world)"
    by (rule missing_coordinate_gives_500 [where kvs = valid_request_kvs and seed = 42
          and batch_index = 0 and batch_size = 5, OF _ _ _ _ _ _ _ _ gen])
      (simp_all add: valid_request_kvs_def get_int_def)
  then show ?thesis
    by (auto simp: round_user_def round_field_def key_error_def)
qed

lemma dict_get_defaults:
  assumes "(k, d) \<in> set request_defaults"
  shows "dict_get (JObj (kvs @ request_defaults)) k d = dict_get (JObj kvs) k d"
  using assms by (auto simp: request_defaults_def map_add_def split: option.splits)

lemma api_generate_try_defaults:
  assumes "req_json req = Inr (JObj kvs)"
    and "req_json req' = Inr (JObj (kvs @ request_defaults))"
  shows "api_generate_try env req' w = api_generate_try env req w"
proof -
  have m: "(''locale'', JStr ''en_US'') \<in> set request_defaults"
    "(''seed'', JInt 12345) \<in> set request_defaults"
    "(''batch_index'', JInt 0) \<in> set request_defaults"
    "(''batch_size'', JInt 10) \<in> set request_defaults"
    by (simp_all add: request_defaults_def)
  show ?thesis
    unfolding api_generate_try_def get_int_def assms
    by (simp only: io_bind_lift_Inr m [THEN dict_get_defaults])
qed

lemma get_int_omitted:
  "map_of kvs k = None \<Longrightarrow> get_int env (JObj kvs) k d = Inr d"
  by (simp add: get_int_def)

text \<open>
  C8: an omitted field takes its default. The handler answers a body exactly as it answers
  the same body with the defaults \<^verbatim>\<open>locale = "en_US"\<close>, \<^verbatim>\<open>seed = 12345\<close>,
  \<^verbatim>\<open>batch_index = 0\<close>, \<^verbatim>\<open>batch_size = 10\<close> added for the missing keys; and when all four
  are omitted the defaults pass validation, are the arguments of the generator call and
  are echoed in the response.
\<close>

theorem defaults_applied:
  assumes "req_json req = Inr (JObj kvs)"
  shows "api_generate env req w =
           api_generate env (req\<lparr>req_json := Inr (JObj (kvs @ request_defaults))\<rparr>) w
         \<and> (map_of kvs ''locale'' = None \<and> map_of kvs ''seed'' = None
              \<and> map_of kvs ''batch_index'' = None \<and> map_of kvs ''batch_size'' = None \<longrightarrow>
             (\<forall>r w'. generate_users env (JStr ''en_US'') 12345 0 10 w = (r, w') \<longrightarrow>
                api_generate env req w =
                  (case r of
                     Inl e \<Rightarrow> (error_response 500 (str_exn e), w')
                   | Inr users \<Rightarrow>
                       (case round_users env users of
                          Inl e \<Rightarrow> (error_response 500 (str_exn e), w')
                        | Inr users' \<Rightarrow>
                            (case jsonify_users env users' of
                               Some e \<Rightarrow> (error_response 500 (str_exn e), w')
                             | None \<Rightarrow>
                                 (\<lparr>status = 200, body =
                                    [(''users'', VUsers users'),
                                     (''locale'', VJson (JStr ''en_US'')),
                                     (''seed'', VInt 12345),
                                     (''batch_index'', VInt 0),
                                     (''batch_size'', VInt 10),
                                     (''timestamp'', VStr (env_now env))]\<rparr>, w'))))))"
proof (intro conjI impI allI)
  have "api_generate_try env (req\<lparr>req_json := Inr (JObj (kvs @ request_defaults))\<rparr>) w =
          api_generate_try env req w"
    by (rule api_generate_try_defaults [OF assms]) simp
  then show "api_generate env req w =
          api_generate env (req\<lparr>req_json := Inr (JObj (kvs @ request_defaults))\<rparr>) w"
    unfolding api_generate_def by (simp only:)
next
  fix r w'
  assume none: "map_of kvs ''locale'' = None \<and> map_of kvs ''seed'' = None
              \<and> map_of kvs ''batch_index'' = None \<and> map_of kvs ''batch_size'' = None"
    and gen: "generate_users env (JStr ''en_US'') 12345 0 10 w = (r, w')"
  have "api_generate_try env req w =
     (case r of
        Inl e \<Rightarrow> (Inl e, w')
      | Inr users \<Rightarrow>
          (case round_users env users of
             Inl e \<Rightarrow> (Inl e, w')
           | Inr users' \<Rightarrow>
               (case jsonify_users env users' of
                  Some e \<Rightarrow> (Inl e, w')
                | None \<Rightarrow>
                    (Inr \<lparr>status = 200, body =
                       [(''users'', VUsers users'),
                        (''locale'', VJson (case map_of kvs ''locale'' of
                                              None \<Rightarrow> JStr ''en_US'' | Some v \<Rightarrow> v)),
                        (''seed'', VInt 12345),
                        (''batch_index'', VInt 0),
                        (''batch_size'', VInt 10),
                        (''timestamp'', VStr (env_now env))]\<rparr>, w'))))"
    by (rule api_generate_try_valid [OF assms])
      (use none gen in \<open>simp_all add: get_int_omitted\<close>)
  then show "api_generate env req w =
                  (case r of
                     Inl e \<Rightarrow> (error_response 500 (str_exn e), w')
                   | Inr users \<Rightarrow>
                       (case round_users env users of
                          Inl e \<Rightarrow> (error_response 500 (str_exn e), w')
                        | Inr users' \<Rightarrow>
                            (case jsonify_users env users' of
                               Some e \<Rightarrow> (error_response 500 (str_exn e), w')
                             | None \<Rightarrow>
                                 (\<lparr>status = 200, body =
                                    [(''users'', VUsers users'),
                                     (''locale'', VJson (JStr ''en_US'')),
                                     (''seed'', VInt 12345),
                                     (''batch_index'', VInt 0),
                                     (''batch_size'', VInt 10),
                                     (''timestamp'', VStr (env_now env))]\<rparr>, w'))))"
    using none by (simp add: api_generate_def split: sum.splits option.splits)
qed

theorem defaults_applied_witness:
  "api_generate sample_env \<lparr>req_json = Inr (JObj [])\<rparr> fresh_world =
     api_generate sample_env \<lparr>req_json = Inr (JObj request_defaults)\<rparr> fresh_world
   \<and> api_generate sample_env \<lparr>req_json = Inr (JObj [])\<rparr> fresh_world =
     (\<lparr>status = 200, body =
        [(''users'', VUsers
           [[(''full_name'', SqlText ''Ann Lee''), (''latitude'', SqlNum (1234568 / 1000000)),
             (''longitude'', SqlNum (- 3))]]),
         (''locale'', VJson (JStr ''en_US'')),
         (''seed'', VInt 12345),
         (''batch_index'', VInt 0),
         (''batch_size'', VInt 10),
         (''timestamp'', VStr ''2024-01-01T00:00:00'')]\<rparr>,
      generated_world [JStr ''en_US'', JInt 12345, JInt 0, JInt 10])"
proof -
  have r: "round_users sample_env sample_rows =
      Inr [[(''full_name'', SqlText ''Ann Lee''), (''latitude'', SqlNum (1234568 / 1000000)),
            (''longitude'', SqlNum (- 3))]]"
    by (simp add: sample_rows_def round_user_def round_field_def sample_env_def)
  have j: "jsonify_users sample_env users = None" for users
    by (induction users) (simp_all add: jsonify_users_def sample_env_def, induct_tac a, simp_all)
  have n: "env_now sample_env = ''2024-01-01T00:00:00''"
    by (simp add: sample_env_def)
  have p: "req_json \<lparr>req_json = Inr (JObj [])\<rparr> = Inr (JObj [])"
    by simp
  note d = defaults_applied [OF p, of sample_env fresh_world]
  have a: "api_generate sample_env \<lparr>req_json = Inr (JObj [])\<rparr> fresh_world =
     api_generate sample_env \<lparr>req_json = Inr (JObj request_defaults)\<rparr> fresh_world"
    using d [THEN conjunct1] by simp
  have b: "api_generate sample_env \<lparr>req_json = Inr (JObj [])\<rparr> fresh_world =
     (\<lparr>status = 200, body =
        [(''users'', VUsers
           [[(''full_name'', SqlText ''Ann Lee''), (''latitude'', SqlNum (1234568 / 1000000)),
             (''longitude'', SqlNum (- 3))]]),
         (''locale'', VJson (JStr ''en_US'')),
         (''seed'', VInt 12345),
         (''batch_index'', VInt 0),
         (''batch_size'', VInt 10),
         (''timestamp'', VStr ''2024-01-01T00:00:00'')]\<rparr>,
      generated_world [JStr ''en_US'', JInt 12345, JInt 0, JInt 10])"
    using d [THEN conjunct2] by (simp add: sample_generate_users r j n)
  from a b show ?thesis by (rule conjI)
qed

lemma health_try_run:
  "health_try env w =
     (case env_database_url env of
        None \<Rightarrow> (Inl (key_error ''DATABASE_URL''), w)
      | Some url \<Rightarrow>
     (case env_connect env of
        Some e \<Rightarrow> (Inl e, w\<lparr>events := events w @ [Connect]\<rparr>)
      | None \<Rightarrow>
     (case env_cursor env of
        Some e \<Rightarrow> (Inl e, w\<lparr>events := events w @ [Connect, Cursor]\<rparr>)
      | None \<Rightarrow>
     (case env_execute env ''SELECT 1'' [] of
        Inl e \<Rightarrow> (Inl e, w\<lparr>events := events w @ [Connect, Cursor, Execute ''SELECT 1'' []]\<rparr>)
      | Inr rows \<Rightarrow>
     (case env_cursor_close env of
        Some e \<Rightarrow>
          (Inl e, w\<lparr>events := events w @ [Connect, Cursor, Execute ''SELECT 1'' [], CursorClose],
                      result_set := Some rows\<rparr>)
      | None \<Rightarrow>
     (case env_conn_close env of
        Some e \<Rightarrow>
          (Inl e, w\<lparr>events := events w @
                        [Connect, Cursor, Execute ''SELECT 1'' [], CursorClose, ConnClose],
                      result_set := Some rows\<rparr>)
      | None \<Rightarrow>
          (Inr healthy_response,
           w\<lparr>events := events w @
                   [Connect, Cursor, Execute ''SELECT 1'' [], CursorClose, ConnClose],
             result_set := Some rows\<rparr>)))))))"
  by (simp add: health_try_def get_db_connection_def db_call_def cur_execute_def emit_def
      outcome_def io_bind_def io_return_def io_raise_def split: option.splits sum.splits)

text \<open>
  C6: \<^verbatim>\<open>GET /health\<close> looks the connection string up, opens a connection, opens a cursor,
  runs \<^verbatim>\<open>SELECT 1\<close> and closes both. When every step succeeds the response is 200 with
  exactly \<^verbatim>\<open>status = healthy\<close> and \<^verbatim>\<open>database = connected\<close>. When a step raises (the
  lookup of \<^verbatim>\<open>DATABASE_URL\<close>, \<^verbatim>\<open>connect\<close>, \<^verbatim>\<open>cursor\<close>, \<^verbatim>\<open>execute\<close> or one of the two
  \<^verbatim>\<open>close\<close> calls), the response is 500 with \<^verbatim>\<open>status = unhealthy\<close> and that exception's
  text as the error, and no later step runs. No other response exists.
\<close>

theorem health_check:
  "(env_database_url env = Some url \<and> env_connect env = None \<and> env_cursor env = None
      \<and> env_execute env ''SELECT 1'' [] = Inr rows
      \<and> env_cursor_close env = None \<and> env_conn_close env = None \<longrightarrow>
      fst (health env w) = healthy_response
      \<and> events (snd (health env w)) =
          events w @ [Connect, Cursor, Execute ''SELECT 1'' [], CursorClose, ConnClose])
   \<and> (env_database_url env = None \<longrightarrow>
        health env w = (unhealthy_response (key_error ''DATABASE_URL''), w))
   \<and> (\<forall>e. env_database_url env = Some url \<and> env_connect env = Some e \<longrightarrow>
        health env w = (unhealthy_response e, w\<lparr>events := events w @ [Connect]\<rparr>))
   \<and> (\<forall>e. env_database_url env = Some url \<and> env_connect env = None
          \<and> env_cursor env = Some e \<longrightarrow>
        health env w = (unhealthy_response e, w\<lparr>events := events w @ [Connect, Cursor]\<rparr>))
   \<and> (\<forall>e. env_database_url env = Some url \<and> env_connect env = None
          \<and> env_cursor env = None \<and> env_execute env ''SELECT 1'' [] = Inl e \<longrightarrow>
        health env w =
          (unhealthy_response e,
           w\<lparr>events := events w @ [Connect, Cursor, Execute ''SELECT 1'' []]\<rparr>))
   \<and> (\<forall>e. env_database_url env = Some url \<and> env_connect env = None
          \<and> env_cursor env = None \<and> env_execute env ''SELECT 1'' [] = Inr rows
          \<and> env_cursor_close env = Some e \<longrightarrow>
        fst (health env w) = unhealthy_response e
        \<and> events (snd (health env w)) =
            events w @ [Connect, Cursor, Execute ''SELECT 1'' [], CursorClose])
   \<and> (\<forall>e. env_database_url env = Some url \<and> env_connect env = None
          \<and> env_cursor env = None \<and> env_execute env ''SELECT 1'' [] = Inr rows
          \<and> env_cursor_close env = None \<and> env_conn_close env = Some e \<longrightarrow>
        fst (health env w) = unhealthy_response e
        \<and> events (snd (health env w)) =
            events w @ [Connect, Cursor, Execute ''SELECT 1'' [], CursorClose, ConnClose])
   \<and> (fst (health env w) = healthy_response
        \<or> (\<exists>e. fst (health env w) = unhealthy_response e))"
  by (auto simp: health_def health_try_run split: option.splits sum.splits)

theorem health_check_witness:
  "fst (health sample_env fresh_world) = healthy_response
   \<and> events (snd (health sample_env fresh_world)) =
       [Connect, Cursor, Execute ''SELECT 1'' [], CursorClose, ConnClose]
   \<and> health unset_url_env fresh_world =
     (\<lparr>status = 500, body =
         [(''status'', VStr ''unhealthy''), (''error'', VStr (quoted ''DATABASE_URL''))]\<rparr>,
      fresh_world)
   \<and> health refusing_env fresh_world =
     (\<lparr>status = 500, body =
         [(''status'', VStr ''unhealthy''), (''error'', VStr ''connection refused'')]\<rparr>,
      \<lparr>events = [Connect], result_set = None\<rparr>)
   \<and> health down_env fresh_world =
     (\<lparr>status = 500, body =
         [(''status'', VStr ''unhealthy''), (''error'', VStr ''server closed the connection'')]\<rparr>,
      \<lparr>events = [Connect, Cursor, Execute ''SELECT 1'' []], result_set = None\<rparr>)
   \<and> fst (health stale_env fresh_world) =
     \<lparr>status = 500, body =
        [(''status'', VStr ''unhealthy''), (''error'', VStr ''connection already closed'')]\<rparr>"
proof -
  note h = health_check [where url = "''postgresql://localhost/fake_users''"
      and rows = sample_rows and w = fresh_world]
  have a: "fst (health sample_env fresh_world) = healthy_response
   \<and> events (snd (health sample_env fresh_world)) =
       [Connect, Cursor, Execute ''SELECT 1'' [], CursorClose, ConnClose]"
    using h [of sample_env, THEN conjunct1]
    by (simp add: sample_env_def fresh_world_def)
  have b: "health unset_url_env fresh_world =
     (\<lparr>status = 500, body =
         [(''status'', VStr ''unhealthy''), (''error'', VStr (quoted ''DATABASE_URL''))]\<rparr>,
      fresh_world)"
    using h [of unset_url_env, THEN conjunct2, THEN conjunct1]
    by (simp add: unset_url_env_def sample_env_def key_error_def)
  have c: "health refusing_env fresh_world =
     (\<lparr>status = 500, body =
         [(''status'', VStr ''unhealthy''), (''error'', VStr ''connection refused'')]\<rparr>,
      \<lparr>events = [Connect], result_set = None\<rparr>)"
    using h [of refusing_env, THEN conjunct2, THEN conjunct2, THEN conjunct1]
    by (simp add: refusing_env_def sample_env_def fresh_world_def)
  have d: "health down_env fresh_world =
     (\<lparr>status = 500, body =
         [(''status'', VStr ''unhealthy''), (''error'', VStr ''server closed the connection'')]\<rparr>,
      \<lparr>events = [Connect, Cursor, Execute ''SELECT 1'' []], result_set = None\<rparr>)"
    using h [of down_env, THEN conjunct2, THEN conjunct2, THEN conjunct2, THEN conjunct2,
        THEN conjunct1]
    by (simp add: down_env_def sample_env_def fresh_world_def)
  have e: "fst (health stale_env fresh_world) =
     \<lparr>status = 500, body =
        [(''status'', VStr ''unhealthy''), (''error'', VStr ''connection already closed'')]\<rparr>"
    using h [of stale_env, THEN conjunct2, THEN conjunct2, THEN conjunct2, THEN conjunct2,
        THEN conjunct2, THEN conjunct2, THEN conjunct1]
    by (simp add: stale_env_def sample_env_def)
  from a b c d e show ?thesis by (intro conjI) simp_all
qed

lemmas bench_defs =
  run_benchmark_def with_connection_def with_cursor_def bench_call_def bench_emit_def
  print_line_def time_time_def true_div_def outcome_def io_bind_def io_return_def
  io_raise_def io_lift_def

lemma float_positive_not_zero: "float_positive x \<Longrightarrow> \<not> float_is_zero x"
  by (cases x) simp_all

lemma benchmark_loop_step:
  assumes "bench_execute env benchmark_sql [JStr locale, JInt seed, JInt count] = None"
    and "bench_commit env = None"
    and "bench_float env count = Inr c"
    and "elapsed = bench_sub env (bench_time env (Suc (bench_clock w)))
                     (bench_time env (bench_clock w))"
    and "\<not> float_is_zero elapsed"
  shows "benchmark_loop env locale seed (count # user_counts) results w =
     benchmark_loop env locale seed user_counts
       (results @ [(count, elapsed, bench_div env c elapsed)])
       (w\<lparr>bench_events := bench_events w @
             [Execute benchmark_sql [JStr locale, JInt seed, JInt count], Commit],
           bench_clock := Suc (Suc (bench_clock w)),
           bench_stdout := bench_stdout w @
             [Generating count, Timing elapsed (bench_div env c elapsed)]\<rparr>)"
  using assms by (simp add: bench_defs)

lemma benchmark_loop_run:
  assumes "bench_commit env = None"
    and "\<forall>count \<in> set user_counts.
           bench_execute env benchmark_sql [JStr locale, JInt seed, JInt count] = None"
    and "\<forall>count \<in> set user_counts. \<exists>c. bench_float env count = Inr c"
    and "\<forall>k < length user_counts.
           float_positive (bench_sub env (bench_time env (Suc (bench_clock w + 2 * k)))
             (bench_time env (bench_clock w + 2 * k)))"
  shows "\<exists>rs w'. benchmark_loop env locale seed user_counts results w = (Inr (results @ rs), w')
           \<and> length rs = length user_counts
           \<and> (\<forall>k < length user_counts. \<exists>elapsed c.
                 rs ! k = (user_counts ! k, elapsed, bench_div env c elapsed)
                 \<and> bench_float env (user_counts ! k) = Inr c
                 \<and> float_positive elapsed
                 \<and> elapsed = bench_sub env (bench_time env (Suc (bench_clock w + 2 * k)))
                               (bench_time env (bench_clock w + 2 * k)))"
  using assms(2,3,4)
proof (induction user_counts arbitrary: results w)
  case Nil
  then show ?case by (simp add: io_return_def)
next
  case (Cons count user_counts)
  let ?e = "bench_sub env (bench_time env (Suc (bench_clock w))) (bench_time env (bench_clock w))"
  from Cons.prems(2) obtain c where c: "bench_float env count = Inr c" by auto
  let ?w = "w\<lparr>bench_events := bench_events w @
             [Execute benchmark_sql [JStr locale, JInt seed, JInt count], Commit],
           bench_clock := Suc (Suc (bench_clock w)),
           bench_stdout := bench_stdout w @
             [Generating count, Timing ?e (bench_div env c ?e)]\<rparr>"
  from Cons.prems(3) have "float_positive (bench_sub env
      (bench_time env (Suc (bench_clock w + 2 * 0))) (bench_time env (bench_clock w + 2 * 0)))"
    by blast
  then have pos: "float_positive ?e" by simp
  have ex: "bench_execute env benchmark_sql [JStr locale, JInt seed, JInt count] = None"
    using Cons.prems(1) by simp
  have step: "benchmark_loop env locale seed (count # user_counts) results w =
      benchmark_loop env locale seed user_counts (results @ [(count, ?e, bench_div env c ?e)]) ?w"
    by (rule benchmark_loop_step [OF ex assms(1) c refl float_positive_not_zero [OF pos]])
  have later: "\<forall>k < length user_counts.
      float_positive (bench_sub env (bench_time env (Suc (bench_clock ?w + 2 * k)))
        (bench_time env (bench_clock ?w + 2 * k)))"
  proof (intro allI impI)
    fix k assume "k < length user_counts"
    then have "Suc k < length (count # user_counts)" by simp
    with Cons.prems(3) have "float_positive (bench_sub env
        (bench_time env (Suc (bench_clock w + 2 * Suc k)))
        (bench_time env (bench_clock w + 2 * Suc k)))" by blast
    then show "float_positive (bench_sub env (bench_time env (Suc (bench_clock ?w + 2 * k)))
        (bench_time env (bench_clock ?w + 2 * k)))" by simp
  qed
  have execs: "\<forall>n \<in> set user_counts.
      bench_execute env benchmark_sql [JStr locale, JInt seed, JInt n] = None"
    using Cons.prems(1) by simp
  have floats: "\<forall>n \<in> set user_counts. \<exists>c. bench_float env n = Inr c"
    using Cons.prems(2) by simp
  from Cons.IH [OF execs floats later, of "results @ [(count, ?e, bench_div env c ?e)]"]
  obtain rs w' where run: "benchmark_loop env locale seed user_counts
        (results @ [(count, ?e, bench_div env c ?e)]) ?w
        = (Inr ((results @ [(count, ?e, bench_div env c ?e)]) @ rs), w')"
    and len: "length rs = length user_counts"
    and nth: "\<And>k. k < length user_counts \<Longrightarrow> \<exists>elapsed c.
                 rs ! k = (user_counts ! k, elapsed, bench_div env c elapsed)
                 \<and> bench_float env (user_counts ! k) = Inr c
                 \<and> float_positive elapsed
                 \<and> elapsed = bench_sub env (bench_time env (Suc (bench_clock ?w + 2 * k)))
                               (bench_time env (bench_clock ?w + 2 * k))"
    by (elim exE conjE) blast
  have "\<exists>elapsed c'.
          ((count, ?e, bench_div env c ?e) # rs) ! k =
            ((count # user_counts) ! k, elapsed, bench_div env c' elapsed)
          \<and> bench_float env ((count # user_counts) ! k) = Inr c'
          \<and> float_positive elapsed
          \<and> elapsed = bench_sub env (bench_time env (Suc (bench_clock w + 2 * k)))
                        (bench_time env (bench_clock w + 2 * k))"
    if "k < length (count # user_counts)" for k
  proof (cases k)
    case 0
    then show ?thesis using c pos by simp
  next
    case (Suc j)
    with that have "j < length user_counts" by simp
    from nth [OF this] Suc show ?thesis by simp
  qed
  then show ?case
    unfolding step run using len
    by (intro exI [of _ "(count, ?e, bench_div env c ?e) # rs"] exI [of _ w']) simp
qed

lemma run_benchmark_run:
  assumes "bench_connect env = None" and "bench_cursor env = None"
    and "bench_commit env = None"
    and "benchmark_loop env locale seed user_counts []
           (w\<lparr>bench_events := bench_events w @ [Connect, Cursor]\<rparr>) = (Inr results, w')"
  shows "fst (run_benchmark env user_counts locale seed w) = Inr results"
  using assms by (simp add: bench_defs)

text \<open>
  C7 as stated fails. When the clock returns the same reading twice, the elapsed time is
  zero, \<^verbatim>\<open>count / elapsed\<close> raises ZeroDivisionError and no result list is returned; when the
  clock steps back between the two readings, the elapsed time of the tuple is negative;
  and a batch size too large for a float raises OverflowError in the division.
\<close>

theorem run_benchmark_counterexample:
  "fst (run_benchmark frozen_clock_env [10000, 50000] ''en_US'' 12345 fresh_bench_world) =
     Inl (Exn ZeroDivisionError ''float division by zero'')
   \<and> fst (run_benchmark backward_clock_env [10000] ''en_US'' 12345 fresh_bench_world) =
     Inr [(10000, Finite (- 2), Finite (- 5000))]
   \<and> fst (run_benchmark steady_clock_env [2 ^ 1024] ''en_US'' 12345 fresh_bench_world) =
     Inl (Exn OverflowError ''int too large to convert to float'')"
  by (simp add: bench_defs frozen_clock_env_def backward_clock_env_def steady_clock_env_def
      fresh_bench_world_def sample_float_def)

text \<open>
  C7 (amended): when the connection and the cursor open, every generation call and every
  commit completes, every batch size converts to a float, and the elapsed time of every
  iteration (the float difference of its two clock readings) is positive,
  \<^verbatim>\<open>run_benchmark\<close> returns one tuple per batch size, in the order of the input list, each
  \<^verbatim>\<open>(count, elapsed, throughput)\<close> with that positive elapsed time and with the throughput
  the float quotient of the count by the elapsed time.
\<close>

theorem run_benchmark_results:
  assumes "bench_connect env = None" and "bench_cursor env = None"
    and "bench_commit env = None"
    and "\<forall>count \<in> set user_counts.
           bench_execute env benchmark_sql [JStr locale, JInt seed, JInt count] = None"
    and "\<forall>count \<in> set user_counts. \<exists>c. bench_float env count = Inr c"
    and "\<forall>k < length user_counts.
           float_positive (bench_sub env (bench_time env (bench_clock w + 2 * k + 1))
             (bench_time env (bench_clock w + 2 * k)))"
  shows "\<exists>results. fst (run_benchmark env user_counts locale seed w) = Inr results
           \<and> length results = length user_counts
           \<and> (\<forall>k < length user_counts. \<exists>elapsed c.
                 results ! k = (user_counts ! k, elapsed, bench_div env c elapsed)
                 \<and> bench_float env (user_counts ! k) = Inr c
                 \<and> float_positive elapsed
                 \<and> elapsed = bench_sub env (bench_time env (bench_clock w + 2 * k + 1))
                               (bench_time env (bench_clock w + 2 * k)))"
proof -
  let ?w = "w\<lparr>bench_events := bench_events w @ [Connect, Cursor]\<rparr>"
  have clock: "\<forall>k < length user_counts.
      float_positive (bench_sub env (bench_time env (Suc (bench_clock ?w + 2 * k)))
        (bench_time env (bench_clock ?w + 2 * k)))"
    using assms(6) by simp
  from benchmark_loop_run [OF assms(3,4,5) clock, of "[]"]
  obtain rs w' where run: "benchmark_loop env locale seed user_counts [] ?w = (Inr rs, w')"
    and len: "length rs = length user_counts"
    and nth: "\<forall>k < length user_counts. \<exists>elapsed c.
                 rs ! k = (user_counts ! k, elapsed, bench_div env c elapsed)
                 \<and> bench_float env (user_counts ! k) = Inr c
                 \<and> float_positive elapsed
                 \<and> elapsed = bench_sub env (bench_time env (Suc (bench_clock ?w + 2 * k)))
                               (bench_time env (bench_clock ?w + 2 * k))"
    by (elim exE conjE) simp
  from run_benchmark_run [OF assms(1-3) run]
  have "fst (run_benchmark env user_counts locale seed w) = Inr rs" .
  with len nth show ?thesis by simp
qed

theorem run_benchmark_results_witness:
  "fst (run_benchmark steady_clock_env [10000, 50000] ''en_US'' 12345 fresh_bench_world) =
     Inr [(10000, Finite 2, Finite 5000), (50000, Finite 2, Finite 25000)]"
proof -
  have "\<exists>results.
      fst (run_benchmark steady_clock_env [10000, 50000] ''en_US'' 12345 fresh_bench_world) =
        Inr results
      \<and> length results = length [10000, 50000 :: int]
      \<and> (\<forall>k < length [10000, 50000 :: int]. \<exists>elapsed c.
            results ! k = ([10000, 50000] ! k, elapsed, bench_div steady_clock_env c elapsed)
            \<and> bench_float steady_clock_env ([10000, 50000] ! k) = Inr c
            \<and> float_positive elapsed
            \<and> elapsed = bench_sub steady_clock_env
                  (bench_time steady_clock_env (bench_clock fresh_bench_world + 2 * k + 1))
                  (bench_time steady_clock_env (bench_clock fresh_bench_world + 2 * k)))"
    by (rule run_benchmark_results)
      (simp_all add: steady_clock_env_def sample_float_def)
  then obtain results where
    r: "fst (run_benchmark steady_clock_env [10000, 50000] ''en_US'' 12345 fresh_bench_world) =
        Inr results"
    and l: "length results = 2"
    and n: "\<And>k. k < 2 \<Longrightarrow> \<exists>elapsed c.
            results ! k = ([10000, 50000] ! k, elapsed, bench_div steady_clock_env c elapsed)
            \<and> bench_float steady_clock_env ([10000, 50000] ! k) = Inr c
            \<and> float_positive elapsed
            \<and> elapsed = bench_sub steady_clock_env
                  (bench_time steady_clock_env (bench_clock fresh_bench_world + 2 * k + 1))
                  (bench_time steady_clock_env (bench_clock fresh_bench_world + 2 * k))"
    by (elim exE conjE) simp
  from n [of 0] have r0: "results ! 0 = (10000, Finite 2, Finite 5000)"
    by (auto simp: steady_clock_env_def fresh_bench_world_def sample_float_def)
  from n [of 1] have r1: "results ! 1 = (50000, Finite 2, Finite 25000)"
    by (auto simp: steady_clock_env_def fresh_bench_world_def sample_float_def)
  from l obtain a b where ab: "results = [a, b]"
    by (cases results; cases "tl results") auto
  with r0 r1 have "results = [(10000, Finite 2, Finite 5000), (50000, Finite 2, Finite 25000)]"
    by simp
  with r show ?thesis by simp
qed

end
